theory Spec2Isabelle
  imports Main "HOL-Library.Code_Target_Numeral"
begin

section \<open>The user document and the document store\<close>

text \<open>
  The account controller (\<^verbatim>\<open>server/controllers/userController.js\<close>) works on user
  documents of a document store. A field that JavaScript holds as a string or \<^verbatim>\<open>null\<close>
  is a \<open>string option\<close>; a date is the number of milliseconds since the epoch.
  The staged batch \<^verbatim>\<open>user.pendingChanges\<close> is a nested object with the three staged
  values and the tag \<^verbatim>\<open>changeType\<close>.
\<close>

record pending =
  p_username :: "string option"
  p_email :: "string option"
  p_password :: "string option"
  changeType :: "string option"

record user =
  uid :: nat
  username :: string
  email :: string
  password :: string
  isEmailVerified :: bool
  emailVerificationToken :: "string option"
  emailVerificationExpires :: "nat option"
  passwordResetToken :: "string option"
  passwordResetExpires :: "nat option"
  pendingChanges :: pending
  lastLogin :: "nat option"

text \<open>JSON response bodies, and a response as the controller sends it.\<close>

datatype json = JNull | JBool bool | JNum nat | JStr string | JObj "(string \<times> json) list"

record response =
  status :: nat
  body :: json

definition reply :: "nat \<Rightarrow> (string \<times> json) list \<Rightarrow> response" where
  "reply code kvs = \<lparr>status = code, body = JObj kvs\<rparr>"

text \<open>
  What a handler takes from outside the controller: the clock (\<^verbatim>\<open>Date.now()\<close>), the token
  that \<^verbatim>\<open>generateRandomToken()\<close> draws, the salted hash that bcrypt computes, the
  comparison behind \<^verbatim>\<open>user.matchPassword\<close> (stored password first), and whether the mail
  transport delivers (the email service rethrows the transport's error).
\<close>

record env =
  now :: nat
  generateRandomToken :: string
  bcrypt_hash :: "string \<Rightarrow> string"
  matchPassword :: "string \<Rightarrow> string \<Rightarrow> bool"
  mail_ok :: bool

text \<open>The request body of a profile update.\<close>

record profile_body =
  b_username :: "string option"
  b_email :: "string option"
  b_newPassword :: "string option"
  b_currentPassword :: "string option"

text \<open>JavaScript truthiness of a string-or-null value: \<^verbatim>\<open>null\<close> and \<^verbatim>\<open>""\<close> are falsy.\<close>

fun truthy :: "string option \<Rightarrow> bool" where
  "truthy None = False"
| "truthy (Some s) = (s \<noteq> [])"

text \<open>The query operator \<^verbatim>\<open>{ $gt: Date.now() }\<close> on a date field; a null date never matches.\<close>

fun gt_date :: "nat option \<Rightarrow> nat \<Rightarrow> bool" where
  "gt_date None t = False"
| "gt_date (Some d) t = (t < d)"

text \<open>
  The store is the list of its documents. \<^verbatim>\<open>User.findOne(query)\<close> returns the first
  document that matches, \<^verbatim>\<open>User.findById(id)\<close> the document with that id, and
  \<^verbatim>\<open>user.save()\<close> writes the document back in the place of the one with its id (a
  handler saves only a document it has loaded from the store). The schema of the User
  model, with its defaults, validators and hooks, is not among the sources: the store
  keeps a document as the controller assigns it.
\<close>

definition findOne :: "(user \<Rightarrow> bool) \<Rightarrow> user list \<Rightarrow> user option" where
  "findOne q db = find q db"

definition findById :: "nat \<Rightarrow> user list \<Rightarrow> user option" where
  "findById i db = findOne (\<lambda>u. uid u = i) db"

fun save :: "user \<Rightarrow> user list \<Rightarrow> user list" where
  "save u [] = []"
| "save u (x # xs) = (if uid x = uid u then u # xs else x # save u xs)"

definition no_pending :: pending where
  "no_pending = \<lparr>p_username = None, p_email = None, p_password = None, changeType = None\<rparr>"

definition msg :: "string \<Rightarrow> (string \<times> json) list" where
  "msg m = [(''message'', JStr m)]"

section \<open>verifyEmail\<close>

text \<open>
  \<^verbatim>\<open>GET /api/users/verify-email/:token\<close>. The steps follow the source: the lookup by
  token and expiry, the initial verification, the application of a staged batch, the
  clearing of the token, one \<^verbatim>\<open>save\<close>, and the message computed from the document as
  it is after these assignments.
\<close>

definition verify_query :: "nat \<Rightarrow> string \<Rightarrow> user \<Rightarrow> bool" where
  "verify_query t token u \<longleftrightarrow>
     emailVerificationToken u = Some token \<and> gt_date (emailVerificationExpires u) t"

text \<open>\<^verbatim>\<open>if (staged) { live = staged }\<close>: the value of the live field after the conditional copy.\<close>

fun copy_if_truthy :: "string option \<Rightarrow> string \<Rightarrow> string" where
  "copy_if_truthy None live = live"
| "copy_if_truthy (Some s) live = (if s \<noteq> [] then s else live)"

definition apply_pending :: "user \<Rightarrow> user" where
  "apply_pending u =
     (if truthy (changeType (pendingChanges u)) then
        (let pc = pendingChanges u;
             u1 = u\<lparr>username := copy_if_truthy (p_username pc) (username u)\<rparr>;
             u2 = u1\<lparr>email := copy_if_truthy (p_email pc) (email u1)\<rparr>;
             u3 = u2\<lparr>password := copy_if_truthy (p_password pc) (password u2)\<rparr>;
             u4 = u3\<lparr>pendingChanges := no_pending\<rparr>
         in (if \<not> isEmailVerified u4 then u4\<lparr>isEmailVerified := True\<rparr> else u4))
      else u)"

definition verifyEmail :: "env \<Rightarrow> string \<Rightarrow> user list \<Rightarrow> user list \<times> response" where
  "verifyEmail e token db =
     (case findOne (verify_query (now e) token) db of
        None \<Rightarrow> (db, reply 400 (msg ''Invalid or expired verification token''))
      | Some user0 \<Rightarrow>
          (let user1 = (if \<not> isEmailVerified user0 \<and> \<not> truthy (changeType (pendingChanges user0))
                        then user0\<lparr>isEmailVerified := True\<rparr> else user0);
               user2 = apply_pending user1;
               user3 = user2\<lparr>emailVerificationToken := None, emailVerificationExpires := None\<rparr>;
               db' = save user3 db;
               message = (if truthy (changeType (pendingChanges user3))
                          then ''Profile changes applied successfully''
                          else ''Email verified successfully'')
           in (db', reply 200 [(''success'', JBool True), (''message'', JStr message)])))"

section \<open>updateUserProfile\<close>

text \<open>
  \<^verbatim>\<open>PUT /api/users/profile\<close>. The handler's locals \<^verbatim>\<open>hasChanges\<close>, \<^verbatim>\<open>changeType\<close> and
  \<^verbatim>\<open>pendingChanges\<close> are the staging state; \<^verbatim>\<open>changeType\<close> is kept in the tag of the
  batch, where the handler puts it when it stores \<^verbatim>\<open>{...pendingChanges, changeType}\<close>.
  Each of the three sections of the handler either answers (an early return) or goes on
  with the staging state.
\<close>

record staging =
  hasChanges :: bool
  staged :: pending

definition handle_email_change ::
  "user \<Rightarrow> profile_body \<Rightarrow> user list \<Rightarrow> staging \<Rightarrow> response + staging" where
  "handle_email_change usr b db st =
     (if truthy (b_email b) \<and> b_email b \<noteq> Some (email usr) then
        (case findOne (\<lambda>u. Some (email u) = b_email b) db of
           Some emailExists \<Rightarrow> Inl (reply 400 (msg ''Email is already in use''))
         | None \<Rightarrow>
             Inr \<lparr>hasChanges = True,
                  staged = (staged st)\<lparr>p_email := b_email b, changeType := Some ''email''\<rparr>\<rparr>)
      else Inr st)"

definition handle_username_change ::
  "user \<Rightarrow> profile_body \<Rightarrow> user list \<Rightarrow> staging \<Rightarrow> response + staging" where
  "handle_username_change usr b db st =
     (if truthy (b_username b) \<and> b_username b \<noteq> Some (username usr) then
        (case findOne (\<lambda>u. Some (username u) = b_username b) db of
           Some usernameExists \<Rightarrow> Inl (reply 400 (msg ''Username is already taken''))
         | None \<Rightarrow>
             Inr \<lparr>hasChanges = True,
                  staged = (staged st)\<lparr>p_username := b_username b,
                    changeType := (if truthy (changeType (staged st)) then Some ''multiple''
                                   else Some ''username'')\<rparr>\<rparr>)
      else Inr st)"

definition handle_password_change ::
  "env \<Rightarrow> user \<Rightarrow> profile_body \<Rightarrow> staging \<Rightarrow> response + staging" where
  "handle_password_change e usr b st =
     (case b_newPassword b of
        None \<Rightarrow> Inr st
      | Some newPassword \<Rightarrow>
          if newPassword = [] then Inr st
          else
            (case b_currentPassword b of
               None \<Rightarrow> Inl (reply 400 (msg ''Current password is required''))
             | Some currentPassword \<Rightarrow>
                 if currentPassword = [] then Inl (reply 400 (msg ''Current password is required''))
                 else if \<not> matchPassword e (password usr) currentPassword
                 then Inl (reply 401 (msg ''Current password is incorrect''))
                 else
                   Inr \<lparr>hasChanges = True,
                        staged = (staged st)\<lparr>p_password := Some (bcrypt_hash e newPassword),
                          changeType := (if truthy (changeType (staged st)) then Some ''multiple''
                                         else Some ''password'')\<rparr>\<rparr>))"

text \<open>A string-or-null value inside a template literal, and as a JSON value.\<close>

fun interpolate :: "string option \<Rightarrow> string" where
  "interpolate None = ''null''"
| "interpolate (Some s) = s"

fun json_of :: "string option \<Rightarrow> json" where
  "json_of None = JNull"
| "json_of (Some s) = JStr s"

text \<open>The \<^verbatim>\<open>switch (changeType)\<close> of the handler; without a matching case the local stays undefined.\<close>

definition changeMessage :: "pending \<Rightarrow> string" where
  "changeMessage pc =
     (if changeType pc = Some ''username''
        then ''username to '' @ [CHR 0x22] @ interpolate (p_username pc) @ [CHR 0x22]
      else if changeType pc = Some ''email''
        then ''email to '' @ [CHR 0x22] @ interpolate (p_email pc) @ [CHR 0x22]
      else if changeType pc = Some ''password'' then ''password''
      else if changeType pc = Some ''multiple'' then ''profile information''
      else ''undefined'')"

definition pending_exists_message :: string where
  "pending_exists_message =
     ''You have pending changes that require verification. Please check your email or request a new verification link.''"

definition day_ms :: nat where
  "day_ms = 24 * 60 * 60 * 1000"

definition stage_and_notify :: "env \<Rightarrow> user \<Rightarrow> pending \<Rightarrow> user list \<Rightarrow> user list \<times> response" where
  "stage_and_notify e usr pc db =
     (let user1 = usr\<lparr>pendingChanges := pc,
                       emailVerificationToken := Some (generateRandomToken e),
                       emailVerificationExpires := Some (now e + day_ms)\<rparr>;
          db1 = save user1 db;
          emailTarget = copy_if_truthy (p_email pc) (email user1)
      in if mail_ok e then
           (db1, reply 200
              [(''_id'', JNum (uid user1)),
               (''username'', JStr (username user1)),
               (''email'', JStr (email user1)),
               (''isEmailVerified'', JBool (isEmailVerified user1)),
               (''pendingChanges'',
                  JObj [(''hasChanges'', JBool True), (''changeType'', json_of (changeType pc))]),
               (''message'', JStr (''A verification email has been sent to '' @ emailTarget
                  @ ''. Please verify to apply your changes to '' @ changeMessage pc @ ''.''))])
         else
           (let user2 = user1\<lparr>pendingChanges := no_pending,
                              emailVerificationToken := None,
                              emailVerificationExpires := None\<rparr>
            in (save user2 db1,
                reply 500 (msg ''Could not send verification email. Please try again later.''))))"

definition updateUserProfile ::
  "env \<Rightarrow> nat \<Rightarrow> profile_body \<Rightarrow> user list \<Rightarrow> user list \<times> response" where
  "updateUserProfile e rid b db =
     (case findById rid db of
        None \<Rightarrow> (db, reply 404 (msg ''User not found''))
      | Some usr \<Rightarrow>
          if truthy (changeType (pendingChanges usr)) then (db, reply 400 (msg pending_exists_message))
          else
            (case handle_email_change usr b db \<lparr>hasChanges = False, staged = no_pending\<rparr> of
               Inl r \<Rightarrow> (db, r)
             | Inr st1 \<Rightarrow>
                 (case handle_username_change usr b db st1 of
                    Inl r \<Rightarrow> (db, r)
                  | Inr st2 \<Rightarrow>
                      (case handle_password_change e usr b st2 of
                         Inl r \<Rightarrow> (db, r)
                       | Inr st3 \<Rightarrow>
                           if \<not> hasChanges st3 then (db, reply 400 (msg ''No changes were requested''))
                           else stage_and_notify e usr (staged st3) db))))"

section \<open>resendVerificationEmail, forgotPassword, resetPassword\<close>

definition resendVerificationEmail :: "env \<Rightarrow> nat \<Rightarrow> user list \<Rightarrow> user list \<times> response" where
  "resendVerificationEmail e rid db =
     (case findById rid db of
        None \<Rightarrow> (db, reply 404 (msg ''User not found''))
      | Some usr \<Rightarrow>
          if isEmailVerified usr then (db, reply 400 (msg ''Your email is already verified''))
          else
            (let user1 = usr\<lparr>emailVerificationToken := Some (generateRandomToken e),
                              emailVerificationExpires := Some (now e + day_ms)\<rparr>;
                 db1 = save user1 db
             in if mail_ok e then (db1, reply 200 (msg ''Verification email has been sent''))
                else (db1, reply 500 (msg ''Could not send verification email. Please try again later.''))))"

definition generic_reset_message :: string where
  "generic_reset_message =
     ''If an account with that email exists, a password reset link has been sent.''"

definition hour_ms :: nat where
  "hour_ms = 60 * 60 * 1000"

definition forgotPassword :: "env \<Rightarrow> string option \<Rightarrow> user list \<Rightarrow> user list \<times> response" where
  "forgotPassword e em db =
     (if \<not> truthy em then (db, reply 400 (msg ''Email is required''))
      else
        (case findOne (\<lambda>u. Some (email u) = em) db of
           None \<Rightarrow> (db, reply 200 (msg generic_reset_message))
         | Some usr \<Rightarrow>
             (let user1 = usr\<lparr>passwordResetToken := Some (generateRandomToken e),
                               passwordResetExpires := Some (now e + hour_ms)\<rparr>;
                  db1 = save user1 db
              in if mail_ok e then (db1, reply 200 (msg generic_reset_message))
                 else
                   (let user2 = user1\<lparr>passwordResetToken := None, passwordResetExpires := None\<rparr>
                    in (save user2 db1,
                        reply 500 (msg ''Error sending password reset email. Please try again later.''))))))"

definition reset_query :: "nat \<Rightarrow> string \<Rightarrow> user \<Rightarrow> bool" where
  "reset_query t token u \<longleftrightarrow>
     passwordResetToken u = Some token \<and> gt_date (passwordResetExpires u) t"

definition resetPassword ::
  "env \<Rightarrow> string \<Rightarrow> string option \<Rightarrow> user list \<Rightarrow> user list \<times> response" where
  "resetPassword e token pw db =
     (case pw of
        None \<Rightarrow> (db, reply 400 (msg ''New password is required''))
      | Some pwd \<Rightarrow>
          if pwd = [] then (db, reply 400 (msg ''New password is required''))
          else if length pwd < 6 then (db, reply 400 (msg ''Password must be at least 6 characters''))
          else
            (case findOne (reset_query (now e) token) db of
               None \<Rightarrow> (db, reply 400 (msg ''Invalid or expired password reset token''))
             | Some usr \<Rightarrow>
                 (let user1 = usr\<lparr>password := pwd\<rparr>;
                      user2 = user1\<lparr>passwordResetToken := None, passwordResetExpires := None\<rparr>
                  in (save user2 db,
                      reply 200 (msg ''Password has been reset successfully. You can now log in with your new password.'')))))"

section \<open>The specification's reading of a commit, and sample data\<close>

text \<open>
  The specification describes the commit of a staged batch as: copy each non-null staged
  field onto the live record, set the verified flag, clear the batch and the token.
  \<open>commit_spec\<close> is that description, to be compared with what \<open>verifyEmail\<close> stores.
\<close>

definition commit_spec :: "user \<Rightarrow> user" where
  "commit_spec u =
     u\<lparr>username := (case p_username (pendingChanges u) of None \<Rightarrow> username u | Some v \<Rightarrow> v),
       email := (case p_email (pendingChanges u) of None \<Rightarrow> email u | Some v \<Rightarrow> v),
       password := (case p_password (pendingChanges u) of None \<Rightarrow> password u | Some v \<Rightarrow> v),
       isEmailVerified := True,
       pendingChanges := no_pending,
       emailVerificationToken := None,
       emailVerificationExpires := None\<rparr>"

text \<open>
  A batch as \<open>updateUserProfile\<close> stages it holds, in each field, \<^verbatim>\<open>null\<close> or a non-empty
  string: a request value is staged only when it is truthy, and the password is staged as
  its bcrypt hash.
\<close>

definition staged_nonempty :: "pending \<Rightarrow> bool" where
  "staged_nonempty pc \<longleftrightarrow>
     p_username pc \<noteq> Some [] \<and> p_email pc \<noteq> Some [] \<and> p_password pc \<noteq> Some []"

text \<open>Sample documents and surroundings for the concrete instances below.\<close>

definition alice :: user where
  "alice = \<lparr>uid = 1, username = ''alice'', email = ''alice@x.com'', password = ''#secret1'',
     isEmailVerified = True, emailVerificationToken = None, emailVerificationExpires = None,
     passwordResetToken = None, passwordResetExpires = None,
     pendingChanges = no_pending, lastLogin = None\<rparr>"

definition alice_pending :: user where
  "alice_pending = alice\<lparr>emailVerificationToken := Some ''t1'',
     emailVerificationExpires := Some 1000,
     pendingChanges := \<lparr>p_username = None, p_email = Some ''new@x.com'', p_password = None,
                         changeType = Some ''email''\<rparr>\<rparr>"

definition alice_token :: user where
  "alice_token = alice\<lparr>emailVerificationToken := Some ''t1'', emailVerificationExpires := Some 1000\<rparr>"

definition alice_reset :: user where
  "alice_reset = alice\<lparr>passwordResetToken := Some ''r1'', passwordResetExpires := Some 1000\<rparr>"

definition bob :: user where
  "bob = \<lparr>uid = 2, username = ''bob'', email = ''bob@x.com'', password = ''#secret2'',
     isEmailVerified = False, emailVerificationToken = Some ''t0'',
     emailVerificationExpires = Some 10,
     passwordResetToken = None, passwordResetExpires = None,
     pendingChanges = no_pending, lastLogin = None\<rparr>"

definition env0 :: env where
  "env0 = \<lparr>now = 50, generateRandomToken = ''t2'', bcrypt_hash = (\<lambda>p. CHR ''#'' # p),
     matchPassword = (\<lambda>stored given. stored = CHR ''#'' # given), mail_ok = True\<rparr>"

definition body_username :: profile_body where
  "body_username = \<lparr>b_username = Some ''alice2'', b_email = None, b_newPassword = None,
     b_currentPassword = None\<rparr>"

definition body_all :: profile_body where
  "body_all = \<lparr>b_username = Some ''alice2'', b_email = Some ''new@x.com'',
     b_newPassword = Some ''hunter22'', b_currentPassword = Some ''secret1''\<rparr>"

definition env_mail_down :: env where
  "env_mail_down = env0\<lparr>mail_ok := False\<rparr>"

definition env1 :: env where
  "env1 = env0\<lparr>now := 60, generateRandomToken := ''r2''\<rparr>"

section \<open>The specification's reading of the tag and of an active token\<close>

text \<open>
  The specification's invariant for \<^verbatim>\<open>changeType\<close>: \<^verbatim>\<open>multiple\<close> when at least two of
  the three staged fields are set, the name of the single staged field otherwise, and
  none when all three are null.
\<close>

definition staged_count :: "pending \<Rightarrow> nat" where
  "staged_count pc =
     (if p_username pc \<noteq> None then 1 else 0) + (if p_email pc \<noteq> None then 1 else 0)
     + (if p_password pc \<noteq> None then 1 else 0)"

definition changeType_spec :: "pending \<Rightarrow> string option" where
  "changeType_spec pc =
     (if 2 \<le> staged_count pc then Some ''multiple''
      else if p_username pc \<noteq> None then Some ''username''
      else if p_email pc \<noteq> None then Some ''email''
      else if p_password pc \<noteq> None then Some ''password''
      else None)"

text \<open>
  The tokens of a user that a lookup accepts at time \<open>t\<close>: the email-verification token
  when \<open>verifyEmail\<close>'s query matches the document, and the password-reset token when
  \<open>resetPassword\<close>'s query does.
\<close>

definition active_tokens :: "nat \<Rightarrow> user \<Rightarrow> string list" where
  "active_tokens t u =
     (case emailVerificationToken u of
        None \<Rightarrow> []
      | Some k \<Rightarrow> if gt_date (emailVerificationExpires u) t then [k] else [])
     @ (case passwordResetToken u of
        None \<Rightarrow> []
      | Some k \<Rightarrow> if gt_date (passwordResetExpires u) t then [k] else [])"

lemmas sample_defs = bob_def alice_def alice_pending_def env0_def env1_def env_mail_down_def
  body_username_def body_all_def no_pending_def

lemmas handler_defs = updateUserProfile_def handle_email_change_def handle_username_change_def
  handle_password_change_def stage_and_notify_def findById_def findOne_def Let_def


section \<open>Lookups and writes\<close>

lemma findOne_None_iff: "findOne q db = None \<longleftrightarrow> (\<forall>u\<in>set db. \<not> q u)"
  by (auto simp add: findOne_def find_None_iff)

lemma findOne_SomeD: "findOne q db = Some u \<Longrightarrow> u \<in> set db \<and> q u"
  unfolding findOne_def by (induction db) (auto split: if_splits)

lemma findById_uid: "findById i db = Some u \<Longrightarrow> uid u = i"
  unfolding findById_def by (drule findOne_SomeD) simp

lemma findById_save:
  "findById i db = Some u \<Longrightarrow> uid u' = i \<Longrightarrow> findById i (save u' db) = Some u'"
  unfolding findById_def findOne_def by (induction db) (auto split: if_splits)

lemma findById_save_mem:
  "x \<in> set db \<Longrightarrow> uid x = uid u' \<Longrightarrow> findById (uid u') (save u' db) = Some u'"
  unfolding findById_def findOne_def by (induction db) (auto split: if_splits)

lemma save_save: "uid u2 = uid u1 \<Longrightarrow> save u2 (save u1 db) = save u2 db"
  by (induction db) auto

lemma map_email_save:
  "findById i db = Some u \<Longrightarrow> uid u' = i \<Longrightarrow> email u' = email u \<Longrightarrow>
   map email (save u' db) = map email db"
  unfolding findById_def findOne_def by (induction db) (auto split: if_splits)

lemma map_username_save:
  "findById i db = Some u \<Longrightarrow> uid u' = i \<Longrightarrow> username u' = username u \<Longrightarrow>
   map username (save u' db) = map username db"
  unfolding findById_def findOne_def by (induction db) (auto split: if_splits)

lemma copy_if_truthy_case:
  "x \<noteq> Some [] \<Longrightarrow> copy_if_truthy x live = (case x of None \<Rightarrow> live | Some v \<Rightarrow> v)"
  by (cases x) auto

lemma apply_pending_commit:
  assumes "truthy (changeType (pendingChanges u))" and "staged_nonempty (pendingChanges u)"
  shows "(apply_pending u)\<lparr>emailVerificationToken := None, emailVerificationExpires := None\<rparr>
         = commit_spec u"
  using assms
  by (simp add: apply_pending_def commit_spec_def staged_nonempty_def Let_def copy_if_truthy_case)

lemma findOne_map:
  assumes "\<And>x. q (h x) = q x"
  shows "findOne q (map h db) = map_option h (findOne q db)"
  using assms unfolding findOne_def by (induction db) auto

lemma save_map:
  assumes "\<And>x. uid (h x) = uid x"
  shows "save (h u) (map h db) = map h (save u db)"
  using assms by (induction db) auto

lemma findOne_email_save:
  assumes "findById i db = Some u" and "uid u' = i" and "email u' = email u"
  shows "findOne (\<lambda>x. Some (email x) = em) (save u' db) = None
         \<longleftrightarrow> findOne (\<lambda>x. Some (email x) = em) db = None"
proof -
  have "set (map email (save u' db)) = set (map email db)"
    using map_email_save [OF assms] by simp
  then have eq: "email ` set (save u' db) = email ` set db" by simp
  have *: "\<And>xs. (\<forall>x\<in>set xs. Some (email x) \<noteq> em) \<longleftrightarrow> em \<notin> Some ` (email ` set xs)"
    by auto
  show ?thesis unfolding findOne_None_iff * eq ..
qed

lemma findOne_username_save:
  assumes "findById i db = Some u" and "uid u' = i" and "username u' = username u"
  shows "findOne (\<lambda>x. Some (username x) = nm) (save u' db) = None
         \<longleftrightarrow> findOne (\<lambda>x. Some (username x) = nm) db = None"
proof -
  have "set (map username (save u' db)) = set (map username db)"
    using map_username_save [OF assms] by simp
  then have eq: "username ` set (save u' db) = username ` set db" by simp
  have *: "\<And>xs. (\<forall>x\<in>set xs. Some (username x) \<noteq> nm) \<longleftrightarrow> nm \<notin> Some ` (username ` set xs)"
    by auto
  show ?thesis unfolding findOne_None_iff * eq ..
qed

section \<open>Confirming a token\<close>

text \<open>
  Claim C1. For a user found by a non-expired verification token who has a pending batch
  (\<^verbatim>\<open>pendingChanges.changeType\<close> set), \<open>verifyEmail\<close> with that token performs one write:
  the stored document is the old one with every non-null staged field copied onto the live
  field, \<^verbatim>\<open>isEmailVerified\<close> true, the batch cleared and both token fields cleared. The
  written document no longer matches the token at any time and carries no batch, so the
  store never holds applied fields together with a valid token, or a cleared token together
  with unapplied fields. The staged values are those \<open>updateUserProfile\<close> stages:
  \<^verbatim>\<open>null\<close> or non-empty.
\<close>

theorem verifyEmail_commits_pending:
  assumes "findOne (verify_query (now e) token) db = Some u"
    and "truthy (changeType (pendingChanges u))"
    and "staged_nonempty (pendingChanges u)"
  shows "fst (verifyEmail e token db) = save (commit_spec u) db
       \<and> status (snd (verifyEmail e token db)) = 200
       \<and> findById (uid u) (save (commit_spec u) db) = Some (commit_spec u)
       \<and> \<not> verify_query t token (commit_spec u)
       \<and> \<not> truthy (changeType (pendingChanges (commit_spec u)))"
proof -
  have mem: "u \<in> set db" using assms(1) by (simp add: findOne_SomeD)
  have id: "uid (commit_spec u) = uid u" by (simp add: commit_spec_def)
  have a: "fst (verifyEmail e token db) = save (commit_spec u) db"
    using assms apply_pending_commit[OF assms(2,3)]
    by (simp add: verifyEmail_def Let_def)
  have b: "status (snd (verifyEmail e token db)) = 200"
    using assms(1) by (simp add: verifyEmail_def Let_def reply_def)
  have c: "findById (uid u) (save (commit_spec u) db) = Some (commit_spec u)"
    using findById_save_mem[OF mem, of "commit_spec u"] id by simp
  have d: "\<not> verify_query t token (commit_spec u)"
    by (simp add: verify_query_def commit_spec_def)
  have f: "\<not> truthy (changeType (pendingChanges (commit_spec u)))"
    by (simp add: commit_spec_def no_pending_def)
  from a b c d f show ?thesis by simp
qed

theorem verifyEmail_commits_pending_witness:
  "findOne (verify_query (now env0) ''t1'') [bob, alice_pending] = Some alice_pending
   \<and> truthy (changeType (pendingChanges alice_pending))
   \<and> staged_nonempty (pendingChanges alice_pending)
   \<and> fst (verifyEmail env0 ''t1'' [bob, alice_pending]) = [bob, alice\<lparr>email := ''new@x.com''\<rparr>]
   \<and> status (snd (verifyEmail env0 ''t1'' [bob, alice_pending])) = 200"
proof -
  have h1: "findOne (verify_query (now env0) ''t1'') [bob, alice_pending] = Some alice_pending"
    by (simp add: findOne_def verify_query_def bob_def alice_pending_def alice_def env0_def)
  have h2: "truthy (changeType (pendingChanges alice_pending))"
    by (simp add: alice_pending_def)
  have h3: "staged_nonempty (pendingChanges alice_pending)"
    by (simp add: staged_nonempty_def alice_pending_def)
  show ?thesis
    using verifyEmail_commits_pending [OF h1 h2 h3] h1 h2 h3
    by (simp add: commit_spec_def alice_pending_def alice_def bob_def no_pending_def)
qed

text \<open>
  Claim C5. When no document matches the lookup of \<open>verifyEmail\<close>, that is, none carries
  the token together with an expiry later than the current time (the token is unknown, or
  it is expired: \<open>bob\<close>'s token \<^verbatim>\<open>t0\<close> below expired at 10, and \<^verbatim>\<open>zz\<close> is nobody's),
  \<open>verifyEmail\<close> answers 400 with the one message
  \<^verbatim>\<open>Invalid or expired verification token\<close> and leaves the store as it is.
\<close>

theorem verifyEmail_unknown_or_expired:
  assumes "\<forall>u\<in>set db. \<not> verify_query (now e) token u"
  shows "verifyEmail e token db = (db, reply 400 (msg ''Invalid or expired verification token''))"
proof -
  have "findOne (verify_query (now e) token) db = None"
    using assms by (simp add: findOne_None_iff)
  then show ?thesis by (simp add: verifyEmail_def)
qed

theorem verifyEmail_unknown_or_expired_witness:
  "\<not> verify_query (now env0) ''t0'' bob \<and> \<not> verify_query (now env0) ''t0'' alice
   \<and> \<not> verify_query (now env0) ''zz'' bob \<and> \<not> verify_query (now env0) ''zz'' alice
   \<and> verifyEmail env0 ''t0'' [bob, alice] =
       ([bob, alice], reply 400 (msg ''Invalid or expired verification token''))
   \<and> verifyEmail env0 ''zz'' [bob, alice] =
       ([bob, alice], reply 400 (msg ''Invalid or expired verification token''))"
proof -
  have h: "\<not> verify_query (now env0) ''t0'' bob \<and> \<not> verify_query (now env0) ''t0'' alice
      \<and> \<not> verify_query (now env0) ''zz'' bob \<and> \<not> verify_query (now env0) ''zz'' alice"
    by (simp add: verify_query_def bob_def alice_def env0_def)
  show ?thesis
    using verifyEmail_unknown_or_expired [of "[bob, alice]" env0 "''t0''"]
      verifyEmail_unknown_or_expired [of "[bob, alice]" env0 "''zz''"] h
    by simp
qed

text \<open>
  Claim C10. For a user who is already verified and has no pending batch, \<open>verifyEmail\<close>
  with the user's non-expired token succeeds: the one write clears
  \<^verbatim>\<open>emailVerificationToken\<close> and \<^verbatim>\<open>emailVerificationExpires\<close> and changes nothing else
  (\<^verbatim>\<open>isEmailVerified\<close> stays true; username, email and password stay as they are).
\<close>

theorem verifyEmail_reverification:
  assumes "findOne (verify_query (now e) token) db = Some u"
    and "isEmailVerified u"
    and "\<not> truthy (changeType (pendingChanges u))"
  shows "verifyEmail e token db =
           (save (u\<lparr>emailVerificationToken := None, emailVerificationExpires := None\<rparr>) db,
            reply 200 [(''success'', JBool True), (''message'', JStr ''Email verified successfully'')])"
  using assms by (simp add: verifyEmail_def apply_pending_def Let_def)

theorem verifyEmail_reverification_witness:
  "findOne (verify_query (now env0) ''t1'') [bob, alice_token] = Some alice_token
   \<and> isEmailVerified alice_token
   \<and> \<not> truthy (changeType (pendingChanges alice_token))
   \<and> verifyEmail env0 ''t1'' [bob, alice_token] =
       ([bob, alice],
        reply 200 [(''success'', JBool True), (''message'', JStr ''Email verified successfully'')])"
proof -
  have h1: "findOne (verify_query (now env0) ''t1'') [bob, alice_token] = Some alice_token"
    by (simp add: findOne_def verify_query_def bob_def alice_token_def alice_def env0_def)
  have h2: "isEmailVerified alice_token"
    by (simp add: alice_token_def alice_def)
  have h3: "\<not> truthy (changeType (pendingChanges alice_token))"
    by (simp add: alice_token_def alice_def no_pending_def)
  show ?thesis
    using verifyEmail_reverification [OF h1 h2 h3] h1 h2 h3
    by (simp add: alice_token_def alice_def bob_def)
qed

text \<open>
  Claim C6. The specification has \<open>verifyEmail\<close> report \<^verbatim>\<open>Profile changes applied successfully\<close>
  when a batch was committed. The handler picks the message after it has cleared
  \<^verbatim>\<open>pendingChanges\<close>, so the test of \<^verbatim>\<open>changeType\<close> sees null: for \<open>alice_pending\<close>, whose
  staged email is committed by the call, the response says \<^verbatim>\<open>Email verified successfully\<close>.
\<close>

theorem verifyEmail_reports_verified_for_batch:
  "verifyEmail env0 ''t1'' [bob, alice_pending] =
     ([bob, alice\<lparr>email := ''new@x.com''\<rparr>],
      reply 200 [(''success'', JBool True), (''message'', JStr ''Email verified successfully'')])"
  by (simp add: verifyEmail_def apply_pending_def verify_query_def findOne_def Let_def sample_defs)

text \<open>More generally, every 200 response of \<open>verifyEmail\<close> carries that one message.\<close>

lemma apply_pending_clears_tag: "\<not> truthy (changeType (pendingChanges (apply_pending u)))"
  by (simp add: apply_pending_def Let_def no_pending_def)

lemma verifyEmail_success_message:
  assumes "status (snd (verifyEmail e token db)) = 200"
  shows "snd (verifyEmail e token db) =
     reply 200 [(''success'', JBool True), (''message'', JStr ''Email verified successfully'')]"
  using assms apply_pending_clears_tag
  by (simp add: verifyEmail_def Let_def reply_def split: option.splits)

section \<open>Staging a profile change\<close>

text \<open>What each section of \<open>updateUserProfile\<close> leaves in the staging state when it goes on.\<close>

lemma handle_email_change_Inr:
  assumes "handle_email_change u b db \<lparr>hasChanges = False, staged = no_pending\<rparr> = Inr st"
  shows "p_username (staged st) = None \<and> p_password (staged st) = None
       \<and> changeType (staged st) = (if p_email (staged st) \<noteq> None then Some ''email'' else None)
       \<and> (hasChanges st \<longleftrightarrow> p_email (staged st) \<noteq> None)
       \<and> p_email (staged st) \<noteq> Some []"
  using assms
  by (cases "b_email b")
     (auto simp add: handle_email_change_def no_pending_def split: if_splits option.splits)

lemma handle_username_change_Inr:
  assumes "handle_username_change u b db st = Inr st'"
    and "p_username (staged st) = None"
  shows "p_email (staged st') = p_email (staged st) \<and> p_password (staged st') = p_password (staged st)
       \<and> changeType (staged st') =
           (if p_username (staged st') \<noteq> None
            then (if truthy (changeType (staged st)) then Some ''multiple'' else Some ''username'')
            else changeType (staged st))
       \<and> (hasChanges st' \<longleftrightarrow> hasChanges st \<or> p_username (staged st') \<noteq> None)
       \<and> p_username (staged st') \<noteq> Some []"
  using assms
  by (cases "b_username b")
     (auto simp add: handle_username_change_def split: if_splits option.splits)

lemma handle_password_change_Inr:
  assumes "handle_password_change e u b st = Inr st'"
    and "p_password (staged st) = None"
  shows "p_email (staged st') = p_email (staged st) \<and> p_username (staged st') = p_username (staged st)
       \<and> changeType (staged st') =
           (if p_password (staged st') \<noteq> None
            then (if truthy (changeType (staged st)) then Some ''multiple'' else Some ''password'')
            else changeType (staged st))
       \<and> (hasChanges st' \<longleftrightarrow> hasChanges st \<or> p_password (staged st') \<noteq> None)"
  using assms
  by (auto simp add: handle_password_change_def split: if_splits option.splits)

lemma staging_tag:
  assumes e: "handle_email_change u b db \<lparr>hasChanges = False, staged = no_pending\<rparr> = Inr st1"
    and n: "handle_username_change u b db st1 = Inr st2"
    and p: "handle_password_change e u b st2 = Inr st3"
  shows "changeType (staged st3) = changeType_spec (staged st3)
       \<and> (hasChanges st3 \<longleftrightarrow> 1 \<le> staged_count (staged st3))"
proof -
  note E = handle_email_change_Inr [OF e]
  from E have u1: "p_username (staged st1) = None" by simp
  note N = handle_username_change_Inr [OF n u1]
  from E N have p2: "p_password (staged st2) = None" by simp
  note P = handle_password_change_Inr [OF p p2]
  show ?thesis
    using E N P
    by (auto simp add: changeType_spec_def staged_count_def split: if_splits)
qed

lemma handle_email_change_status:
  "handle_email_change u b db st = Inl r \<Longrightarrow> status r = 400"
  by (auto simp add: handle_email_change_def reply_def split: if_splits option.splits)

lemma handle_username_change_status:
  "handle_username_change u b db st = Inl r \<Longrightarrow> status r = 400"
  by (auto simp add: handle_username_change_def reply_def split: if_splits option.splits)

lemma handle_password_change_status:
  "handle_password_change e u b st = Inl r \<Longrightarrow> status r = 400 \<or> status r = 401"
  by (auto simp add: handle_password_change_def reply_def split: if_splits option.splits)

lemma stage_and_notify_sent:
  "mail_ok e \<Longrightarrow>
   fst (stage_and_notify e u pc db) =
     save (u\<lparr>pendingChanges := pc, emailVerificationToken := Some (generateRandomToken e),
              emailVerificationExpires := Some (now e + day_ms)\<rparr>) db
   \<and> status (snd (stage_and_notify e u pc db)) = 200"
  by (simp add: stage_and_notify_def Let_def reply_def)

lemma stage_and_notify_failed:
  "\<not> mail_ok e \<Longrightarrow>
   stage_and_notify e u pc db =
     (save (u\<lparr>pendingChanges := no_pending, emailVerificationToken := None,
               emailVerificationExpires := None\<rparr>) db,
      reply 500 (msg ''Could not send verification email. Please try again later.''))"
  by (simp add: stage_and_notify_def Let_def save_save)

text \<open>The handler reaches the staging write exactly along this path.\<close>

lemma updateUserProfile_reaches_staging:
  assumes "updateUserProfile e rid b db = (db', r)"
    and "status r = 200 \<or> status r = 500"
  shows "\<exists>u st1 st2 st3.
           findById rid db = Some u \<and> \<not> truthy (changeType (pendingChanges u))
         \<and> handle_email_change u b db \<lparr>hasChanges = False, staged = no_pending\<rparr> = Inr st1
         \<and> handle_username_change u b db st1 = Inr st2
         \<and> handle_password_change e u b st2 = Inr st3
         \<and> hasChanges st3
         \<and> (db', r) = stage_and_notify e u (staged st3) db"
proof (cases "findById rid db")
  case None
  with assms show ?thesis by (auto simp add: updateUserProfile_def reply_def)
next
  case (Some u)
  show ?thesis
  proof (cases "truthy (changeType (pendingChanges u))")
    case True
    with Some assms show ?thesis by (auto simp add: updateUserProfile_def reply_def)
  next
    case nt: False
    show ?thesis
    proof (cases "handle_email_change u b db \<lparr>hasChanges = False, staged = no_pending\<rparr>")
      case (Inl r1)
      with Some nt assms handle_email_change_status [OF Inl] show ?thesis
        by (auto simp add: updateUserProfile_def)
    next
      case (Inr st1)
      note e1 = this
      show ?thesis
      proof (cases "handle_username_change u b db st1")
        case (Inl r2)
        with Some nt e1 assms handle_username_change_status [OF Inl] show ?thesis
          by (auto simp add: updateUserProfile_def)
      next
        case (Inr st2)
        note e2 = this
        show ?thesis
        proof (cases "handle_password_change e u b st2")
          case (Inl r3)
          with Some nt e1 e2 assms handle_password_change_status [OF Inl] show ?thesis
            by (auto simp add: updateUserProfile_def)
        next
          case (Inr st3)
          with Some nt e1 e2 assms show ?thesis
            by (auto simp add: updateUserProfile_def reply_def split: if_splits)
        qed
      qed
    qed
  qed
qed

text \<open>
  A successful staging stores a batch with its tag set and with every staged value null
  or non-empty, provided the bcrypt hash of a password is never the empty string (it is a
  string of sixty characters).
\<close>

lemma handle_password_change_nonempty:
  assumes "handle_password_change e u b st = Inr st'"
    and "p_password (staged st) = None"
    and "\<forall>p. bcrypt_hash e p \<noteq> []"
  shows "p_password (staged st') \<noteq> Some []"
  using assms
  by (auto simp add: handle_password_change_def split: if_splits option.splits)

lemma updateUserProfile_stages_nonempty:
  assumes "updateUserProfile e rid b db = (db', r)" and "status r = 200"
    and "\<forall>p. bcrypt_hash e p \<noteq> []"
  shows "\<exists>u'. findById rid db' = Some u' \<and> truthy (changeType (pendingChanges u'))
            \<and> staged_nonempty (pendingChanges u')"
proof -
  from updateUserProfile_reaches_staging [OF assms(1)] assms(2)
  obtain u st1 st2 st3 where
    f: "findById rid db = Some u"
    and h1: "handle_email_change u b db \<lparr>hasChanges = False, staged = no_pending\<rparr> = Inr st1"
    and h2: "handle_username_change u b db st1 = Inr st2"
    and h3: "handle_password_change e u b st2 = Inr st3"
    and hc: "hasChanges st3"
    and s: "(db', r) = stage_and_notify e u (staged st3) db"
    by auto
  have ok: "mail_ok e"
  proof (rule ccontr)
    assume "\<not> mail_ok e"
    from stage_and_notify_failed [OF this, of u "staged st3" db] s assms(2)
    show False by (simp add: reply_def)
  qed
  let ?u' = "u\<lparr>pendingChanges := staged st3, emailVerificationToken := Some (generateRandomToken e),
              emailVerificationExpires := Some (now e + day_ms)\<rparr>"
  have db': "db' = save ?u' db"
    using stage_and_notify_sent [OF ok, of u "staged st3" db] s by (metis fst_conv)
  have "uid ?u' = rid" using findById_uid [OF f] by simp
  from findById_save [OF f this] db' have found: "findById rid db' = Some ?u'" by simp
  note E = handle_email_change_Inr [OF h1]
  from E have u1: "p_username (staged st1) = None" by simp
  note N = handle_username_change_Inr [OF h2 u1]
  from E N have p2: "p_password (staged st2) = None" by simp
  note P = handle_password_change_Inr [OF h3 p2]
  note Q = handle_password_change_nonempty [OF h3 p2 assms(3)]
  from staging_tag [OF h1 h2 h3] hc
  have tag: "changeType (staged st3) = changeType_spec (staged st3)"
    and cnt: "1 \<le> staged_count (staged st3)" by simp_all
  have t: "truthy (changeType (staged st3))"
    using tag cnt by (auto simp add: changeType_spec_def staged_count_def split: if_splits)
  have n: "staged_nonempty (staged st3)"
    using E N P Q by (simp add: staged_nonempty_def)
  show ?thesis using found t n by simp
qed

lemma handle_email_change_cong:
  assumes "email u' = email u"
    and "findOne (\<lambda>x. Some (email x) = b_email b) db' = None
         \<longleftrightarrow> findOne (\<lambda>x. Some (email x) = b_email b) db = None"
  shows "handle_email_change u' b db' st = handle_email_change u b db st"
  using assms
  by (cases "findOne (\<lambda>x. Some (email x) = b_email b) db";
      cases "findOne (\<lambda>x. Some (email x) = b_email b) db'")
     (simp_all add: handle_email_change_def)

lemma handle_username_change_cong:
  assumes "username u' = username u"
    and "findOne (\<lambda>x. Some (username x) = b_username b) db' = None
         \<longleftrightarrow> findOne (\<lambda>x. Some (username x) = b_username b) db = None"
  shows "handle_username_change u' b db' st = handle_username_change u b db st"
  using assms
  by (cases "findOne (\<lambda>x. Some (username x) = b_username b) db";
      cases "findOne (\<lambda>x. Some (username x) = b_username b) db'")
     (simp_all add: handle_username_change_def)

lemma handle_password_change_cong:
  assumes "password u' = password u"
  shows "handle_password_change (e\<lparr>mail_ok := m\<rparr>) u' b st = handle_password_change e u b st"
  using assms by (simp add: handle_password_change_def split: option.splits)

text \<open>
  Claim C2. When the user's \<^verbatim>\<open>pendingChanges.changeType\<close> is set, every call of
  \<open>updateUserProfile\<close> for that user answers 400 with the pending-changes message, and the
  store (the batch, the token and every live field of every document) is unchanged.
\<close>

theorem updateUserProfile_pending_rejected:
  assumes "findById rid db = Some u" and "truthy (changeType (pendingChanges u))"
  shows "updateUserProfile e rid b db = (db, reply 400 (msg pending_exists_message))"
  using assms by (simp add: updateUserProfile_def)

theorem updateUserProfile_pending_rejected_witness:
  "findById 1 [bob, alice_pending] = Some alice_pending
   \<and> truthy (changeType (pendingChanges alice_pending))
   \<and> updateUserProfile env0 1
        \<lparr>b_username = Some ''alice2'', b_email = None, b_newPassword = None,
         b_currentPassword = None\<rparr> [bob, alice_pending]
       = ([bob, alice_pending], reply 400 (msg pending_exists_message))"
proof -
  have h1: "findById 1 [bob, alice_pending] = Some alice_pending"
    by (simp add: findById_def findOne_def bob_def alice_pending_def alice_def)
  have h2: "truthy (changeType (pendingChanges alice_pending))"
    by (simp add: alice_pending_def)
  show ?thesis
    using updateUserProfile_pending_rejected [OF h1 h2] h1 h2 by simp
qed

text \<open>
  Claim C4. After every successful staging by \<open>updateUserProfile\<close> (the 200 response), the
  stored \<^verbatim>\<open>pendingChanges.changeType\<close> is the tag the specification prescribes:
  \<^verbatim>\<open>multiple\<close> if and only if at least two of username, email and password are staged
  non-null; with one staged field it names that field; and it is null if and only if all
  three staged fields are null (which a successful staging never produces: at least one
  field is staged).
\<close>

theorem updateUserProfile_changeType:
  assumes "updateUserProfile e rid b db = (db', r)" and "status r = 200"
  shows "\<exists>u'. findById rid db' = Some u'
           \<and> changeType (pendingChanges u') = changeType_spec (pendingChanges u')
           \<and> (changeType (pendingChanges u') = Some ''multiple''
                 \<longleftrightarrow> 2 \<le> staged_count (pendingChanges u'))
           \<and> (staged_count (pendingChanges u') = 1 \<longrightarrow>
                 changeType (pendingChanges u') =
                   (if p_username (pendingChanges u') \<noteq> None then Some ''username''
                    else if p_email (pendingChanges u') \<noteq> None then Some ''email''
                    else Some ''password''))
           \<and> (changeType (pendingChanges u') = None
                 \<longleftrightarrow> p_username (pendingChanges u') = None \<and> p_email (pendingChanges u') = None
                      \<and> p_password (pendingChanges u') = None)
           \<and> 1 \<le> staged_count (pendingChanges u')"
proof -
  from updateUserProfile_reaches_staging [OF assms(1)] assms(2)
  obtain u st1 st2 st3 where
    f: "findById rid db = Some u"
    and h: "handle_email_change u b db \<lparr>hasChanges = False, staged = no_pending\<rparr> = Inr st1"
       "handle_username_change u b db st1 = Inr st2"
       "handle_password_change e u b st2 = Inr st3"
    and hc: "hasChanges st3"
    and s: "(db', r) = stage_and_notify e u (staged st3) db"
    by auto
  have ok: "mail_ok e"
  proof (rule ccontr)
    assume "\<not> mail_ok e"
    from stage_and_notify_failed [OF this, of u "staged st3" db] s assms(2)
    show False by (simp add: reply_def)
  qed
  let ?u' = "u\<lparr>pendingChanges := staged st3, emailVerificationToken := Some (generateRandomToken e),
              emailVerificationExpires := Some (now e + day_ms)\<rparr>"
  have db': "db' = save ?u' db"
    using stage_and_notify_sent [OF ok, of u "staged st3" db] s by (metis fst_conv)
  have "uid ?u' = rid" using findById_uid [OF f] by simp
  from findById_save [OF f this] db' have found: "findById rid db' = Some ?u'" by simp
  from staging_tag [OF h] hc
  have tag: "changeType (staged st3) = changeType_spec (staged st3)"
    and cnt: "1 \<le> staged_count (staged st3)" by simp_all
  have "changeType (pendingChanges ?u') = changeType_spec (pendingChanges ?u')"
    using tag by simp
  moreover have "1 \<le> staged_count (pendingChanges ?u')" using cnt by simp
  ultimately show ?thesis
    using found
    by (auto simp add: changeType_spec_def staged_count_def split: if_splits)
qed

theorem updateUserProfile_changeType_witness:
  "status (snd (updateUserProfile env0 1 body_all [bob, alice])) = 200
   \<and> (\<exists>u'. findById 1 (fst (updateUserProfile env0 1 body_all [bob, alice])) = Some u'
          \<and> changeType (pendingChanges u') = changeType_spec (pendingChanges u')
          \<and> changeType (pendingChanges u') = Some ''multiple''
          \<and> staged_count (pendingChanges u') = 3)"
proof -
  have ev: "updateUserProfile env0 1 body_all [bob, alice] =
    ([bob, alice\<lparr>emailVerificationToken := Some ''t2'',
           emailVerificationExpires := Some 86400050,
           pendingChanges := \<lparr>p_username = Some ''alice2'', p_email = Some ''new@x.com'',
             p_password = Some ''#hunter22'', changeType = Some ''multiple''\<rparr>\<rparr>],
     snd (updateUserProfile env0 1 body_all [bob, alice]))"
    by (simp add: handler_defs sample_defs day_ms_def)
  have h: "status (snd (updateUserProfile env0 1 body_all [bob, alice])) = 200"
    by (simp add: handler_defs sample_defs reply_def)
  show ?thesis
    using updateUserProfile_changeType [OF ev h] h
    by (auto simp add: staged_count_def changeType_spec_def handler_defs sample_defs)
qed

text \<open>
  Claim C3. When \<open>updateUserProfile\<close> answers with the failure of the notification send,
  the rollback has been written: the stored document is the one before the call with the
  batch empty and the verification token and expiry null, so username, email and password
  are those before the call. A retry of the same request on the resulting store is never
  answered with the pending-changes error, whatever the surroundings, and it succeeds with
  200 when the surroundings are the same and the mail goes through.
\<close>

theorem updateUserProfile_send_failure_rollback:
  assumes "updateUserProfile e rid b db = (db', r)"
    and "r = reply 500 (msg ''Could not send verification email. Please try again later.'')"
  shows "\<exists>u u'. findById rid db = Some u \<and> findById rid db' = Some u'
           \<and> db' = save u' db
           \<and> u' = u\<lparr>pendingChanges := no_pending, emailVerificationToken := None,
                     emailVerificationExpires := None\<rparr>
           \<and> username u' = username u \<and> email u' = email u \<and> password u' = password u
           \<and> (\<forall>e'. snd (updateUserProfile e' rid b db') \<noteq> reply 400 (msg pending_exists_message))
           \<and> status (snd (updateUserProfile (e\<lparr>mail_ok := True\<rparr>) rid b db')) = 200"
proof -
  have st: "status r = 200 \<or> status r = 500" using assms(2) by (simp add: reply_def)
  from updateUserProfile_reaches_staging [OF assms(1) st]
  obtain u st1 st2 st3 where
    f: "findById rid db = Some u"
    and nt: "\<not> truthy (changeType (pendingChanges u))"
    and h1: "handle_email_change u b db \<lparr>hasChanges = False, staged = no_pending\<rparr> = Inr st1"
    and h2: "handle_username_change u b db st1 = Inr st2"
    and h3: "handle_password_change e u b st2 = Inr st3"
    and hc: "hasChanges st3"
    and s: "(db', r) = stage_and_notify e u (staged st3) db"
    by auto
  have nok: "\<not> mail_ok e"
  proof
    assume "mail_ok e"
    from stage_and_notify_sent [OF this, of u "staged st3" db]
    have "status (snd (stage_and_notify e u (staged st3) db)) = 200" by simp
    moreover have "snd (stage_and_notify e u (staged st3) db) = r" using s by (metis snd_conv)
    ultimately show False using assms(2) by (simp add: reply_def)
  qed
  let ?u' = "u\<lparr>pendingChanges := no_pending, emailVerificationToken := None,
                emailVerificationExpires := None\<rparr>"
  have db': "db' = save ?u' db"
    using stage_and_notify_failed [OF nok, of u "staged st3" db] s by simp
  have id: "uid ?u' = rid" using findById_uid [OF f] by simp
  have found: "findById rid db' = Some ?u'"
    using findById_save [OF f id] db' by simp
  have tag: "\<not> truthy (changeType (pendingChanges ?u'))" by (simp add: no_pending_def)
  have g1: "handle_email_change ?u' b db' \<lparr>hasChanges = False, staged = no_pending\<rparr> = Inr st1"
    using handle_email_change_cong [of ?u' u b db' db] findOne_email_save [OF f id, of "b_email b"]
      h1 db' by simp
  have g2: "handle_username_change ?u' b db' st1 = Inr st2"
    using handle_username_change_cong [of ?u' u b db' db]
      findOne_username_save [OF f id, of "b_username b"] h2 db' by simp
  have g3: "handle_password_change (e\<lparr>mail_ok := True\<rparr>) ?u' b st2 = Inr st3"
    using handle_password_change_cong [where u' = ?u' and u = u and e = e and m = True and b = b and st = st2] h3 by simp
  have retry: "updateUserProfile (e\<lparr>mail_ok := True\<rparr>) rid b db'
                 = stage_and_notify (e\<lparr>mail_ok := True\<rparr>) ?u' (staged st3) db'"
    using found tag g1 g2 g3 hc by (simp add: updateUserProfile_def)
  have ok: "status (snd (updateUserProfile (e\<lparr>mail_ok := True\<rparr>) rid b db')) = 200"
    unfolding retry using stage_and_notify_sent [of "e\<lparr>mail_ok := True\<rparr>" ?u' "staged st3" db']
    by simp
  have notblocked: "\<forall>e'. snd (updateUserProfile e' rid b db') \<noteq> reply 400 (msg pending_exists_message)"
  proof
    fix e'
    have c1: "handle_email_change ?u' b db' \<lparr>hasChanges = False, staged = no_pending\<rparr> = Inr st1"
      by (rule g1)
    show "snd (updateUserProfile e' rid b db') \<noteq> reply 400 (msg pending_exists_message)"
    proof (cases "handle_password_change e' ?u' b st2")
      case (Inl r3)
      then have "r3 \<noteq> reply 400 (msg pending_exists_message)"
        by (auto simp add: handle_password_change_def reply_def msg_def pending_exists_message_def
            split: if_splits option.splits)
      with Inl found tag g1 g2 show ?thesis by (simp add: updateUserProfile_def)
    next
      case (Inr st3')
      then have "hasChanges st3'"
        using hc h3
        by (auto simp add: handle_password_change_def split: if_splits option.splits)
      with Inr found tag g1 g2 show ?thesis
        by (simp add: updateUserProfile_def stage_and_notify_def Let_def reply_def
            msg_def pending_exists_message_def)
    qed
  qed
  show ?thesis using f found db' ok notblocked by simp
qed

theorem updateUserProfile_send_failure_rollback_witness:
  "updateUserProfile env_mail_down 1 body_all [bob, alice] =
     ([bob, alice], reply 500 (msg ''Could not send verification email. Please try again later.''))
   \<and> findById 1 [bob, alice] = Some alice
   \<and> snd (updateUserProfile env_mail_down 1 body_all [bob, alice])
        \<noteq> reply 400 (msg pending_exists_message)
   \<and> status (snd (updateUserProfile (env_mail_down\<lparr>mail_ok := True\<rparr>) 1 body_all [bob, alice])) = 200"
proof -
  have ev: "updateUserProfile env_mail_down 1 body_all [bob, alice] =
     ([bob, alice], reply 500 (msg ''Could not send verification email. Please try again later.''))"
    by (simp add: handler_defs sample_defs)
  have f: "findById 1 [bob, alice] = Some alice"
    by (simp add: findById_def findOne_def sample_defs)
  from updateUserProfile_send_failure_rollback [OF ev refl]
  have r: "(\<forall>e'. snd (updateUserProfile e' 1 body_all [bob, alice])
               \<noteq> reply 400 (msg pending_exists_message))
     \<and> status (snd (updateUserProfile (env_mail_down\<lparr>mail_ok := True\<rparr>) 1 body_all [bob, alice])) = 200"
    by blast
  from r have "snd (updateUserProfile env_mail_down 1 body_all [bob, alice])
        \<noteq> reply 400 (msg pending_exists_message)" by blast
  with r ev f show ?thesis by blast
qed

section \<open>Requesting a password reset\<close>

text \<open>
  Claim C7. The specification has \<open>forgotPassword\<close> return the same body whether or not the
  email belongs to a user. When the mail transport fails, the handler answers an existing
  email with 500 and an error message, and an unknown email with 200 and the generic
  message: the two bodies differ.
\<close>

theorem forgotPassword_send_failure_differs:
  "snd (forgotPassword env_mail_down (Some ''alice@x.com'') [bob, alice]) =
     reply 500 (msg ''Error sending password reset email. Please try again later.'')
   \<and> snd (forgotPassword env_mail_down (Some ''nobody@x.com'') [bob, alice]) =
     reply 200 (msg generic_reset_message)
   \<and> body (snd (forgotPassword env_mail_down (Some ''alice@x.com'') [bob, alice]))
     \<noteq> body (snd (forgotPassword env_mail_down (Some ''nobody@x.com'') [bob, alice]))"
  by (simp add: forgotPassword_def findOne_def Let_def sample_defs reply_def msg_def
      generic_reset_message_def)

text \<open>When the mail is sent, the response is the generic one for every non-empty email.\<close>

lemma forgotPassword_generic_when_sent:
  assumes "mail_ok e" and "truthy em"
  shows "snd (forgotPassword e em db) = reply 200 (msg generic_reset_message)"
  using assms by (simp add: forgotPassword_def Let_def split: option.splits)

section \<open>Resetting a password\<close>

text \<open>
  Claim C9. For a user found by a non-expired reset token and a new password of at least
  six characters, \<open>resetPassword\<close> performs one write that sets the password to the given
  value and clears \<^verbatim>\<open>passwordResetToken\<close> and \<^verbatim>\<open>passwordResetExpires\<close>; the written document
  keeps its \<^verbatim>\<open>pendingChanges\<close> and its email-verification fields. The handler does not read
  these fields either: replacing them in every document of the store by any other values
  gives the same response, and the same store with the replaced values.
\<close>

theorem resetPassword_frame:
  assumes "findOne (reset_query (now e) token) db = Some u" and "6 \<le> length pwd"
  shows "resetPassword e token (Some pwd) db =
           (save (u\<lparr>password := pwd, passwordResetToken := None, passwordResetExpires := None\<rparr>) db,
            reply 200 (msg ''Password has been reset successfully. You can now log in with your new password.''))
       \<and> resetPassword e token (Some pwd)
            (map (\<lambda>x. x\<lparr>pendingChanges := f (uid x), emailVerificationToken := g (uid x),
                         emailVerificationExpires := h (uid x)\<rparr>) db) =
           (map (\<lambda>x. x\<lparr>pendingChanges := f (uid x), emailVerificationToken := g (uid x),
                         emailVerificationExpires := h (uid x)\<rparr>)
              (fst (resetPassword e token (Some pwd) db)),
            snd (resetPassword e token (Some pwd) db))"
proof -
  let ?T = "\<lambda>x. x\<lparr>pendingChanges := f (uid x), emailVerificationToken := g (uid x),
                         emailVerificationExpires := h (uid x)\<rparr>"
  let ?u' = "u\<lparr>password := pwd, passwordResetToken := None, passwordResetExpires := None\<rparr>"
  have ne: "pwd \<noteq> []" and len: "\<not> length pwd < 6" using assms(2) by auto
  have a: "resetPassword e token (Some pwd) db =
           (save ?u' db,
            reply 200 (msg ''Password has been reset successfully. You can now log in with your new password.''))"
    using assms(1) ne len by (simp add: resetPassword_def Let_def)
  have q: "findOne (reset_query (now e) token) (map ?T db) = Some (?T u)"
    using findOne_map[of "reset_query (now e) token" ?T db] assms(1)
    by (simp add: reset_query_def)
  have s: "save (?T ?u') (map ?T db) = map ?T (save ?u' db)"
    by (rule save_map) simp
  have eq: "(?T u)\<lparr>password := pwd, passwordResetToken := None, passwordResetExpires := None\<rparr>
            = ?T ?u'"
    by simp
  have b0: "resetPassword e token (Some pwd) (map ?T db) =
           (save ((?T u)\<lparr>password := pwd, passwordResetToken := None,
                     passwordResetExpires := None\<rparr>) (map ?T db),
            reply 200 (msg ''Password has been reset successfully. You can now log in with your new password.''))"
    using q ne len by (simp add: resetPassword_def Let_def)
  have b: "resetPassword e token (Some pwd) (map ?T db) =
           (map ?T (save ?u' db),
            reply 200 (msg ''Password has been reset successfully. You can now log in with your new password.''))"
    unfolding b0 eq s ..
  show ?thesis using a b by simp
qed

theorem resetPassword_frame_witness:
  "findOne (reset_query (now env0) ''r1'') [bob, alice_reset] = Some alice_reset
   \<and> 6 \<le> length ''hunter22''
   \<and> resetPassword env0 ''r1'' (Some ''hunter22'') [bob, alice_reset] =
       ([bob, alice\<lparr>password := ''hunter22''\<rparr>],
        reply 200 (msg ''Password has been reset successfully. You can now log in with your new password.''))"
proof -
  have h1: "findOne (reset_query (now env0) ''r1'') [bob, alice_reset] = Some alice_reset"
    by (simp add: findOne_def reset_query_def bob_def alice_reset_def alice_def env0_def)
  have h2: "6 \<le> length ''hunter22''"
    by simp
  show ?thesis
    using resetPassword_frame [OF h1 h2] h1 h2
    by (simp add: alice_reset_def alice_def bob_def)
qed

section \<open>Tokens of a user\<close>

text \<open>
  Claim C8, as stated: a user never holds two valid tokens at once. The document has two
  token fields. After a profile update at time 50 (verification token \<^verbatim>\<open>t2\<close>, valid for a
  day) and a password-reset request at time 60 (reset token \<^verbatim>\<open>r2\<close>, valid for an hour),
  \<open>alice\<close> holds both, and both are accepted at time 60.
\<close>

theorem two_tokens_valid_at_once:
  "map (active_tokens 60)
     (fst (forgotPassword env1 (Some ''alice@x.com'')
        (fst (updateUserProfile env0 1 body_username [bob, alice]))))
   = [[], [''t2'', ''r2'']]"
  by (simp add: forgotPassword_def handler_defs sample_defs active_tokens_def day_ms_def hour_ms_def)

text \<open>
  Claim C8, amended. Each operation that issues a token overwrites the token of its own
  kind and leaves the other kind as it is: a successful \<open>updateUserProfile\<close> and a
  \<open>resendVerificationEmail\<close> for an unverified user write the new email-verification token
  and expiry (and change no reset field); \<open>forgotPassword\<close> for an existing email whose mail
  is sent writes the new reset token and expiry (and changes no email-verification field).
\<close>

theorem token_issue_overwrites_own_kind:
  "(updateUserProfile e rid b db = (db', r) \<and> status r = 200 \<longrightarrow>
      (\<exists>u pc. findById rid db = Some u
         \<and> db' = save (u\<lparr>pendingChanges := pc,
                          emailVerificationToken := Some (generateRandomToken e),
                          emailVerificationExpires := Some (now e + day_ms)\<rparr>) db))
   \<and> (findById rid db = Some u \<and> \<not> isEmailVerified u \<longrightarrow>
        fst (resendVerificationEmail e rid db) =
          save (u\<lparr>emailVerificationToken := Some (generateRandomToken e),
                   emailVerificationExpires := Some (now e + day_ms)\<rparr>) db)
   \<and> (truthy em \<and> findOne (\<lambda>x. Some (email x) = em) db = Some v \<and> mail_ok e \<longrightarrow>
        fst (forgotPassword e em db) =
          save (v\<lparr>passwordResetToken := Some (generateRandomToken e),
                   passwordResetExpires := Some (now e + hour_ms)\<rparr>) db)"
proof (intro conjI impI)
  assume a: "updateUserProfile e rid b db = (db', r) \<and> status r = 200"
  then have st: "status r = 200 \<or> status r = 500" by simp
  from updateUserProfile_reaches_staging [OF conjunct1 [OF a] st]
  obtain u0 st1 st2 st3 where f: "findById rid db = Some u0"
    and "handle_email_change u0 b db \<lparr>hasChanges = False, staged = no_pending\<rparr> = Inr st1"
      "handle_username_change u0 b db st1 = Inr st2"
      "handle_password_change e u0 b st2 = Inr st3"
    and s: "(db', r) = stage_and_notify e u0 (staged st3) db"
    by auto
  have ok: "mail_ok e"
  proof (rule ccontr)
    assume "\<not> mail_ok e"
    from stage_and_notify_failed [OF this, of u0 "staged st3" db] s a
    show False by (simp add: reply_def)
  qed
  have "db' = save (u0\<lparr>pendingChanges := staged st3,
                          emailVerificationToken := Some (generateRandomToken e),
                          emailVerificationExpires := Some (now e + day_ms)\<rparr>) db"
    using stage_and_notify_sent [OF ok, of u0 "staged st3" db] s by (metis fst_conv)
  with f show "\<exists>u pc. findById rid db = Some u
         \<and> db' = save (u\<lparr>pendingChanges := pc,
                          emailVerificationToken := Some (generateRandomToken e),
                          emailVerificationExpires := Some (now e + day_ms)\<rparr>) db"
    by blast
next
  assume "findById rid db = Some u \<and> \<not> isEmailVerified u"
  then show "fst (resendVerificationEmail e rid db) =
          save (u\<lparr>emailVerificationToken := Some (generateRandomToken e),
                   emailVerificationExpires := Some (now e + day_ms)\<rparr>) db"
    by (simp add: resendVerificationEmail_def Let_def)
next
  assume "truthy em \<and> findOne (\<lambda>x. Some (email x) = em) db = Some v \<and> mail_ok e"
  then show "fst (forgotPassword e em db) =
          save (v\<lparr>passwordResetToken := Some (generateRandomToken e),
                   passwordResetExpires := Some (now e + hour_ms)\<rparr>) db"
    by (simp add: forgotPassword_def Let_def)
qed

theorem token_issue_overwrites_own_kind_witness:
  "status (snd (updateUserProfile env0 1 body_username [bob, alice])) = 200
   \<and> fst (updateUserProfile env0 1 body_username [bob, alice]) =
       [bob, alice\<lparr>emailVerificationToken := Some ''t2'', emailVerificationExpires := Some 86400050,
          pendingChanges := \<lparr>p_username = Some ''alice2'', p_email = None, p_password = None,
             changeType = Some ''username''\<rparr>\<rparr>]
   \<and> findById 2 [bob, alice] = Some bob \<and> \<not> isEmailVerified bob
   \<and> fst (resendVerificationEmail env0 2 [bob, alice]) =
       [bob\<lparr>emailVerificationToken := Some ''t2'', emailVerificationExpires := Some 86400050\<rparr>, alice]
   \<and> truthy (Some ''bob@x.com'')
   \<and> findOne (\<lambda>x. Some (email x) = Some ''bob@x.com'') [bob, alice] = Some bob
   \<and> mail_ok env1
   \<and> fst (forgotPassword env1 (Some ''bob@x.com'') [bob, alice]) =
       [bob\<lparr>passwordResetToken := Some ''r2'', passwordResetExpires := Some 3600060\<rparr>, alice]"
proof -
  have h1: "updateUserProfile env0 1 body_username [bob, alice] =
      (fst (updateUserProfile env0 1 body_username [bob, alice]),
       snd (updateUserProfile env0 1 body_username [bob, alice]))
    \<and> status (snd (updateUserProfile env0 1 body_username [bob, alice])) = 200"
    by (simp add: handler_defs sample_defs reply_def)
  have h2: "findById 2 [bob, alice] = Some bob \<and> \<not> isEmailVerified bob"
    by (simp add: findById_def findOne_def sample_defs)
  have h3: "truthy (Some ''bob@x.com'')
      \<and> findOne (\<lambda>x. Some (email x) = Some ''bob@x.com'') [bob, alice] = Some bob \<and> mail_ok env1"
    by (simp add: findOne_def sample_defs)
  note T = token_issue_overwrites_own_kind
  have t1: "\<exists>u pc. findById 1 [bob, alice] = Some u
         \<and> fst (updateUserProfile env0 1 body_username [bob, alice]) =
            save (u\<lparr>pendingChanges := pc,
                          emailVerificationToken := Some (generateRandomToken env0),
                          emailVerificationExpires := Some (now env0 + day_ms)\<rparr>) [bob, alice]"
    using T [THEN conjunct1, of env0 1 body_username "[bob, alice]"] h1 by blast
  have t2: "fst (resendVerificationEmail env0 2 [bob, alice]) =
          save (bob\<lparr>emailVerificationToken := Some (generateRandomToken env0),
                   emailVerificationExpires := Some (now env0 + day_ms)\<rparr>) [bob, alice]"
    using T [THEN conjunct2, THEN conjunct1, of 2 "[bob, alice]" bob env0] h2 by blast
  have t3: "fst (forgotPassword env1 (Some ''bob@x.com'') [bob, alice]) =
          save (bob\<lparr>passwordResetToken := Some (generateRandomToken env1),
                   passwordResetExpires := Some (now env1 + hour_ms)\<rparr>) [bob, alice]"
    using T [THEN conjunct2, THEN conjunct2, of "Some ''bob@x.com''" "[bob, alice]" bob env1] h3
    by blast
  have e1: "fst (updateUserProfile env0 1 body_username [bob, alice]) =
       [bob, alice\<lparr>emailVerificationToken := Some ''t2'', emailVerificationExpires := Some 86400050,
          pendingChanges := \<lparr>p_username = Some ''alice2'', p_email = None, p_password = None,
             changeType = Some ''username''\<rparr>\<rparr>]"
    by (simp add: handler_defs sample_defs day_ms_def)
  show ?thesis
    using h1 h2 h3 t1 t2 t3 e1
    by (simp add: sample_defs day_ms_def hour_ms_def)
qed

end
